theory Spec2Isabelle
  imports Complex_Main "HOL-Library.Product_Lexorder"
begin

section \<open>The finance tracker of app.py\<close>

text \<open>
  The theory embeds the class \<open>FinanceTracker\<close> of \<open>src/app.py\<close>: its validated add
  operations, \<open>update_initial_balance\<close> and the day-by-day projection
  \<open>generate_daily_forecast\<close>.

  Conventions of the embedding.
  \<^item> Amounts and balances are Python numbers: the source annotates them \<open>float\<close> and
    also stores \<open>int\<close> constants (\<open>13000\<close>, \<open>35000\<close>, \<open>900\<close>, the initial
    balance \<open>0\<close>). The embedding is polymorphic in the number type \<open>'a\<close>. Its
    definitions use only the operations the code applies (\<open>+\<close>, unary \<open>-\<close>,
    \<open>abs\<close>, comparison with \<open>0\<close>) and assume no law of arithmetic, so at the type
    \<open>int\<close> they are the program on Python's exact integers and at the type
    \<open>double\<close> below the program on Python's floats, where every addition rounds.
  \<^item> An exception is a value of \<open>error\<close>; a method that mutates the tracker or writes
    the data file takes the state and returns the state it leaves behind, together with
    its outcome, also when it raises.
  \<^item> \<open>datetime.now()\<close> is an input \<open>now\<close> of every method that reads the clock.
  \<^item> Default arguments (\<open>color="green"\<close>, \<open>max_days=180\<close>) are passed explicitly.
\<close>

subsection \<open>Exceptions\<close>

datatype error = ValueError string | OverflowError

subsection \<open>Dates: the part of Python's \<open>datetime\<close> the tracker uses\<close>

text \<open>
  A \<open>datetime\<close> object carries a calendar date of the proleptic Gregorian calendar and
  a time of day. \<open>.date()\<close> is the triple (year, month, day); Python orders dates
  lexicographically, which is the order of triples here.
\<close>

record datetime =
  dt_year :: nat
  dt_month :: nat
  dt_day :: nat
  dt_hour :: nat
  dt_minute :: nat
  dt_second :: nat
  dt_microsecond :: nat

type_synonym date = "nat \<times> nat \<times> nat"

definition date_of :: "datetime \<Rightarrow> date" where
  "date_of dt = (dt_year dt, dt_month dt, dt_day dt)"

definition is_leap :: "nat \<Rightarrow> bool" where
  "is_leap y \<longleftrightarrow> y mod 4 = 0 \<and> (y mod 100 \<noteq> 0 \<or> y mod 400 = 0)"

definition days_in_month :: "nat \<Rightarrow> nat \<Rightarrow> nat" where
  "days_in_month y m =
     (if m = 2 then (if is_leap y then 29 else 28)
      else if m = 4 \<or> m = 6 \<or> m = 9 \<or> m = 11 then 30
      else 31)"

text \<open>The objects the \<open>datetime\<close> constructor accepts (\<open>MINYEAR = 1\<close>, \<open>MAXYEAR = 9999\<close>).\<close>

definition valid_datetime :: "datetime \<Rightarrow> bool" where
  "valid_datetime dt \<longleftrightarrow>
     1 \<le> dt_year dt \<and> dt_year dt \<le> 9999 \<and>
     1 \<le> dt_month dt \<and> dt_month dt \<le> 12 \<and>
     1 \<le> dt_day dt \<and> dt_day dt \<le> days_in_month (dt_year dt) (dt_month dt) \<and>
     dt_hour dt < 24 \<and> dt_minute dt < 60 \<and> dt_second dt < 60 \<and>
     dt_microsecond dt < 1000000"

text \<open>
  \<open>dt + timedelta(days=1)\<close>: the following calendar day at the same time of day;
  past 9999-12-31 Python raises \<open>OverflowError\<close> (date value out of range).
\<close>

definition next_day :: "datetime \<Rightarrow> error + datetime" where
  "next_day dt =
     (if dt_day dt < days_in_month (dt_year dt) (dt_month dt)
      then Inr (dt\<lparr>dt_day := dt_day dt + 1\<rparr>)
      else if dt_month dt < 12
      then Inr (dt\<lparr>dt_month := dt_month dt + 1, dt_day := 1\<rparr>)
      else if dt_year dt < 9999
      then Inr (dt\<lparr>dt_year := dt_year dt + 1, dt_month := 1, dt_day := 1\<rparr>)
      else Inl OverflowError)"

text \<open>
  \<open>dt + timedelta(days=k)\<close> for \<open>k \<ge> 0\<close>: \<open>k\<close> days later. (\<open>timedelta\<close>
  itself raises \<open>OverflowError\<close> beyond 999999999 days; every valid date overflows
  the calendar long before, with the same exception.)
\<close>

fun add_days :: "datetime \<Rightarrow> nat \<Rightarrow> error + datetime" where
  "add_days dt 0 = Inr dt"
| "add_days dt (Suc k) =
     (case add_days dt k of Inl e \<Rightarrow> Inl e | Inr d \<Rightarrow> next_day d)"

subsection \<open>Python's float\<close>

text \<open>
  A Python \<open>float\<close> is an IEEE 754 binary64 number. \<open>double\<close> models its values:
  the finite ones by the rational they denote, the two infinities and NaN. (The sign of
  zero is not kept: \<open>0.0\<close> and \<open>-0.0\<close> are equal in Python and denote \<open>Finite 0\<close>.)
  \<open>round_double x\<close> is the double nearest to the rational \<open>x\<close>, ties to the even
  significand: 53 significant bits, the exponent of the least normal number
  (\<open>- 1022\<close>) for the subnormal ones, an infinity from \<open>2 ^ 1024\<close> on. It is the
  value of a float literal and the result of every finite addition.
\<close>

datatype double = Finite rat | PosInf | NegInf | NaN

text \<open>The number of binary digits of a positive integer.\<close>

function bit_length :: "int \<Rightarrow> int" where
  "bit_length n = (if n \<le> 0 then 0 else 1 + bit_length (n div 2))"
  by pat_completeness auto
termination
  by (relation "measure nat") auto

declare bit_length.simps [simp del]

definition pow2 :: "int \<Rightarrow> rat" where
  "pow2 k = (if 0 \<le> k then of_int (2 ^ nat k) else 1 / of_int (2 ^ nat (- k)))"

text \<open>For \<open>x \<noteq> 0\<close>, the exponent \<open>e\<close> with \<open>2 ^ e \<le> \<bar>x\<bar> < 2 ^ (e + 1)\<close>.\<close>

definition ilog2 :: "rat \<Rightarrow> int" where
  "ilog2 x =
     (let (a, b) = quotient_of \<bar>x\<bar>;
          k = bit_length a - bit_length b
      in if pow2 k \<le> \<bar>x\<bar> then k else k - 1)"

definition round_half_even :: "rat \<Rightarrow> int" where
  "round_half_even y =
     (let f = \<lfloor>y\<rfloor>; d = y - of_int f
      in if d < 1 / 2 then f else if 1 / 2 < d then f + 1
         else if f mod 2 = 0 then f else f + 1)"

definition round_double :: "rat \<Rightarrow> double" where
  "round_double x =
     (if x = 0 then Finite 0
      else
        let e = max (ilog2 x) (- 1022);
            q = pow2 (e - 52);
            n = round_half_even (x / q)
        in if 1024 \<le> e \<or> (e = 1023 \<and> \<bar>n\<bar> = 2 ^ 53)
           then (if 0 < x then PosInf else NegInf)
           else Finite (of_int n * q))"

text \<open>
  The operations of the code on floats: \<open>a + b\<close>, \<open>-a\<close>, \<open>abs(a)\<close>, the literal
  \<open>0\<close> and the comparisons (every comparison with NaN is false).
\<close>

instantiation double :: "{plus, uminus, abs, zero, ord}"
begin

fun plus_double :: "double \<Rightarrow> double \<Rightarrow> double" where
  "plus_double NaN y = NaN"
| "plus_double x NaN = NaN"
| "plus_double PosInf NegInf = NaN"
| "plus_double NegInf PosInf = NaN"
| "plus_double PosInf y = PosInf"
| "plus_double x PosInf = PosInf"
| "plus_double NegInf y = NegInf"
| "plus_double x NegInf = NegInf"
| "plus_double (Finite x) (Finite y) = round_double (x + y)"

fun uminus_double :: "double \<Rightarrow> double" where
  "uminus_double (Finite x) = Finite (- x)"
| "uminus_double PosInf = NegInf"
| "uminus_double NegInf = PosInf"
| "uminus_double NaN = NaN"

fun abs_double :: "double \<Rightarrow> double" where
  "abs_double (Finite x) = Finite \<bar>x\<bar>"
| "abs_double PosInf = PosInf"
| "abs_double NegInf = PosInf"
| "abs_double NaN = NaN"

definition zero_double :: double where
  "zero_double = Finite 0"

fun less_eq_double :: "double \<Rightarrow> double \<Rightarrow> bool" where
  "less_eq_double NaN y = False"
| "less_eq_double x NaN = False"
| "less_eq_double NegInf y = True"
| "less_eq_double x PosInf = True"
| "less_eq_double PosInf y = False"
| "less_eq_double x NegInf = False"
| "less_eq_double (Finite x) (Finite y) = (x \<le> y)"

fun less_double :: "double \<Rightarrow> double \<Rightarrow> bool" where
  "less_double NaN y = False"
| "less_double x NaN = False"
| "less_double PosInf y = False"
| "less_double x NegInf = False"
| "less_double NegInf y = True"
| "less_double x PosInf = True"
| "less_double (Finite x) (Finite y) = (x < y)"

instance ..

end

text \<open>
  The sum of a list of amounts as the spec writes it, \<open>sum(amounts)\<close>: from \<open>0\<close>,
  left to right. It is not a function of the source, which adds each amount to the
  running balance; the two are compared below.
\<close>

definition spec_sum :: "'a::{plus,zero} list \<Rightarrow> 'a" where
  "spec_sum amounts = foldl (+) 0 amounts"

subsection \<open>The data classes and the tracker\<close>

text \<open>
  The fields of the two data classes, of the dictionaries built by the forecast and of the
  rows of the data frame carry a prefix, since a field name is a constant of the theory:
  \<open>t_\<close> for \<open>Transaction\<close>, \<open>ot_\<close> for \<open>OneTimeTransaction\<close>, \<open>tx_\<close> for
  the per-day transaction dictionaries, \<open>e_\<close> for the entries of \<open>forecast_data\<close>
  and \<open>r_\<close> for the rows.
\<close>

record 'a Transaction =
  t_day :: int
  t_amount :: 'a
  t_name :: string
  t_color :: string

record 'a OneTimeTransaction =
  ot_date :: datetime
  ot_amount :: 'a
  ot_type :: string
  ot_name :: string
  ot_color :: string

record 'a FinanceTracker =
  data_file :: string
  initial_balance :: 'a
  current_balance :: 'a
  monthly_incomes :: "'a Transaction list"
  monthly_expenses :: "'a Transaction list"
  one_time_transactions :: "'a OneTimeTransaction list"

text \<open>The dictionary \<open>data\<close> that \<open>save_data\<close> serialises into the data file.\<close>

record 'a json_data =
  js_initial_balance :: 'a
  js_current_balance :: 'a
  js_monthly_incomes :: "'a Transaction list"
  js_monthly_expenses :: "'a Transaction list"
  js_one_time_transactions :: "'a OneTimeTransaction list"

text \<open>
  The state a method runs in: the tracker object and the sequence of documents handed to
  \<open>data_file.write_text\<close> so far, the latest last.
\<close>

record 'a state =
  tracker :: "'a FinanceTracker"
  written :: "'a json_data list"

text \<open>
  \<open>save_data\<close> catches every exception of the write and prints it, so it always
  returns; the model records the write that was requested.
\<close>

definition save_data :: "'a state \<Rightarrow> 'a state" where
  "save_data s =
     (let self = tracker s;
          data = \<lparr>js_initial_balance = initial_balance self,
                  js_current_balance = current_balance self,
                  js_monthly_incomes = monthly_incomes self,
                  js_monthly_expenses = monthly_expenses self,
                  js_one_time_transactions = one_time_transactions self\<rparr>
      in s\<lparr>written := written s @ [data]\<rparr>)"

text \<open>
  \<open>_set_default_transactions\<close>, and the constructor \<open>FinanceTracker(initial_balance)\<close>
  run where the data file does not exist yet (\<open>load_data\<close> then changes nothing, and
  the defaults are installed and saved).
\<close>

definition set_default_transactions :: "'a::numeral state \<Rightarrow> 'a state" where
  "set_default_transactions s =
     (let self = tracker s;
          self = self\<lparr>monthly_incomes :=
                   [\<lparr>t_day = 21, t_amount = 13000, t_name = ''Pension'', t_color = ''green''\<rparr>]\<rparr>;
          self = self\<lparr>monthly_expenses :=
                   [\<lparr>t_day = 14, t_amount = 35000, t_name = ''Rent'', t_color = ''red''\<rparr>,
                    \<lparr>t_day = 22, t_amount = 900, t_name = ''Internet'',
                     t_color = ''darkred''\<rparr>]\<rparr>
      in save_data (s\<lparr>tracker := self\<rparr>))"

definition init_no_file :: "'a::numeral \<Rightarrow> 'a state" where
  "init_no_file balance =
     (let self = \<lparr>data_file = ''finance_data.json'', initial_balance = balance,
                  current_balance = balance, monthly_incomes = [], monthly_expenses = [],
                  one_time_transactions = []\<rparr>;
          s = \<lparr>tracker = self, written = []\<rparr>
      in if monthly_incomes (tracker s) = [] \<and> monthly_expenses (tracker s) = []
         then set_default_transactions s else s)"

subsection \<open>The add operations\<close>

text \<open>\<open>x or default\<close> on an optional string: \<open>None\<close> and the empty string are falsy.\<close>

definition str_or :: "string option \<Rightarrow> string \<Rightarrow> string" where
  "str_or name dflt = (case name of None \<Rightarrow> dflt | Some n \<Rightarrow> if n = [] then dflt else n)"

text \<open>\<open>date or datetime.now()\<close>: a datetime object is always truthy.\<close>

definition date_or_now :: "datetime option \<Rightarrow> datetime \<Rightarrow> datetime" where
  "date_or_now date now = (case date of None \<Rightarrow> now | Some d \<Rightarrow> d)"

definition add_income ::
  "'a::{ord,zero} \<Rightarrow> datetime option \<Rightarrow> string option \<Rightarrow> string \<Rightarrow> datetime \<Rightarrow> 'a state
     \<Rightarrow> (error + unit) \<times> 'a state" where
  "add_income amount date name color now s =
     (if amount \<le> 0 then (Inl (ValueError ''Income amount must be positive''), s)
      else
        let self = tracker s;
            self = self\<lparr>one_time_transactions := one_time_transactions self @
                     [\<lparr>ot_date = date_or_now date now,
                       ot_amount = amount,
                       ot_type = ''income'',
                       ot_name = str_or name ''One-time Income'',
                       ot_color = color\<rparr>]\<rparr>
        in (Inr (), save_data (s\<lparr>tracker := self\<rparr>)))"

definition add_expense ::
  "'a::{ord,zero,uminus} \<Rightarrow> datetime option \<Rightarrow> string option \<Rightarrow> string \<Rightarrow> datetime
     \<Rightarrow> 'a state \<Rightarrow> (error + unit) \<times> 'a state" where
  "add_expense amount date name color now s =
     (if amount \<le> 0 then (Inl (ValueError ''Expense amount must be positive''), s)
      else
        let self = tracker s;
            self = self\<lparr>one_time_transactions := one_time_transactions self @
                     [\<lparr>ot_date = date_or_now date now,
                       ot_amount = - amount,
                       ot_type = ''expense'',
                       ot_name = str_or name ''One-time Expense'',
                       ot_color = color\<rparr>]\<rparr>
        in (Inr (), save_data (s\<lparr>tracker := self\<rparr>)))"

definition add_monthly_income ::
  "int \<Rightarrow> 'a::{ord,zero} \<Rightarrow> string \<Rightarrow> string \<Rightarrow> 'a state \<Rightarrow> (error + unit) \<times> 'a state" where
  "add_monthly_income day amount name color s =
     (if \<not> (1 \<le> day \<and> day \<le> 31)
      then (Inl (ValueError ''Day must be between 1 and 31''), s)
      else if amount \<le> 0
      then (Inl (ValueError ''Income amount must be positive''), s)
      else
        let self = tracker s;
            self = self\<lparr>monthly_incomes := monthly_incomes self @
                     [\<lparr>t_day = day, t_amount = amount, t_name = name, t_color = color\<rparr>]\<rparr>
        in (Inr (), save_data (s\<lparr>tracker := self\<rparr>)))"

definition add_monthly_expense ::
  "int \<Rightarrow> 'a::{ord,zero} \<Rightarrow> string \<Rightarrow> string \<Rightarrow> 'a state \<Rightarrow> (error + unit) \<times> 'a state" where
  "add_monthly_expense day amount name color s =
     (if \<not> (1 \<le> day \<and> day \<le> 31)
      then (Inl (ValueError ''Day must be between 1 and 31''), s)
      else if amount \<le> 0
      then (Inl (ValueError ''Expense amount must be positive''), s)
      else
        let self = tracker s;
            self = self\<lparr>monthly_expenses := monthly_expenses self @
                     [\<lparr>t_day = day, t_amount = amount, t_name = name, t_color = color\<rparr>]\<rparr>
        in (Inr (), save_data (s\<lparr>tracker := self\<rparr>)))"

definition update_initial_balance ::
  "'a::{ord,zero} \<Rightarrow> 'a state \<Rightarrow> (error + unit) \<times> 'a state" where
  "update_initial_balance balance s =
     (if balance < 0 then (Inl (ValueError ''Initial balance cannot be negative''), s)
      else
        let self = tracker s;
            self = self\<lparr>initial_balance := balance\<rparr>;
            self = self\<lparr>current_balance := balance\<rparr>
        in (Inr (), save_data (s\<lparr>tracker := self\<rparr>)))"

text \<open>
  The spec's error taxonomy names the two kinds of \<open>ValueError\<close> the add operations
  raise; in the code they differ by their message.
\<close>

definition InvalidDay :: "error \<Rightarrow> bool" where
  "InvalidDay e \<longleftrightarrow> e = ValueError ''Day must be between 1 and 31''"

definition InvalidAmount :: "error \<Rightarrow> bool" where
  "InvalidAmount e \<longleftrightarrow>
     e = ValueError ''Income amount must be positive'' \<or>
     e = ValueError ''Expense amount must be positive''"

subsection \<open>The forecast\<close>

record 'a day_transaction =
  tx_type :: string
  tx_name :: string
  tx_amount :: 'a
  tx_color :: string

record 'a forecast_entry =
  e_date :: datetime
  e_transactions :: "'a day_transaction list"
  e_balance :: 'a

record 'a row =
  r_Date :: string
  r_Transaction :: string
  r_Income :: 'a
  r_Expense :: 'a
  r_Balance :: 'a

text \<open>
  \<open>sorted(self.one_time_transactions, key=lambda x: x.date.date())\<close>. Python's
  \<open>sorted\<close> is stable and builds a new list; \<open>sort_key\<close> is a stable insertion sort.
\<close>

definition sorted_transactions :: "'a FinanceTracker \<Rightarrow> 'a OneTimeTransaction list" where
  "sorted_transactions self =
     sort_key (\<lambda>x. date_of (ot_date x)) (one_time_transactions self)"

text \<open>The list \<open>day_transactions\<close> that one iteration of the loop builds for \<open>current_date\<close>.\<close>

definition day_transactions ::
  "'a::uminus FinanceTracker \<Rightarrow> 'a OneTimeTransaction list \<Rightarrow> datetime
     \<Rightarrow> 'a day_transaction list" where
  "day_transactions self srt current_date =
     (let dts = [];
          dts = (if list_ex (\<lambda>income. t_day income = int (dt_day current_date))
                      (monthly_incomes self)
                 then dts @
                   map (\<lambda>income. \<lparr>tx_type = ''income'', tx_name = t_name income,
                                   tx_amount = t_amount income, tx_color = t_color income\<rparr>)
                     (filter (\<lambda>income. t_day income = int (dt_day current_date))
                        (monthly_incomes self))
                 else dts);
          dts = (if list_ex (\<lambda>expense. t_day expense = int (dt_day current_date))
                      (monthly_expenses self)
                 then dts @
                   map (\<lambda>expense. \<lparr>tx_type = ''expense'', tx_name = t_name expense,
                                    tx_amount = - t_amount expense, tx_color = t_color expense\<rparr>)
                     (filter (\<lambda>expense. t_day expense = int (dt_day current_date))
                        (monthly_expenses self))
                 else dts);
          dts = dts @
                   map (\<lambda>t. \<lparr>tx_type = ot_type t, tx_name = ot_name t,
                              tx_amount = ot_amount t, tx_color = ot_color t\<rparr>)
                     (filter (\<lambda>t. date_of (ot_date t) = date_of current_date) srt)
      in dts)"

text \<open>
  The \<open>for day_offset in range(max_days)\<close> loop, over the offsets still to visit, with
  the local variables \<open>current_balance\<close> (here \<open>running_balance\<close>) and
  \<open>forecast_data\<close>. The \<open>break\<close> returns
  the entries collected so far; an exception of the date addition leaves the function.
\<close>

fun forecast_loop ::
  "'a::{plus,uminus,ord,zero} FinanceTracker \<Rightarrow> 'a OneTimeTransaction list \<Rightarrow> datetime
     \<Rightarrow> nat list \<Rightarrow> 'a \<Rightarrow> 'a forecast_entry list \<Rightarrow> error + 'a forecast_entry list" where
  "forecast_loop self srt start_date [] running_balance forecast_data = Inr forecast_data"
| "forecast_loop self srt start_date (day_offset # rest) running_balance forecast_data =
     (case add_days start_date day_offset of
        Inl e \<Rightarrow> Inl e
      | Inr current_date \<Rightarrow>
          (let dts = day_transactions self srt current_date;
               running_balance = foldl (\<lambda>b transaction. b + tx_amount transaction)
                                   running_balance dts;
               forecast_data = forecast_data @
                 [\<lparr>e_date = current_date, e_transactions = dts,
                   e_balance = running_balance\<rparr>]
           in if running_balance \<le> 0 then Inr forecast_data
              else forecast_loop self srt start_date rest running_balance forecast_data))"

text \<open>\<open>now.replace(hour=0, minute=0, second=0, microsecond=0)\<close>, the start date.\<close>

definition start_of_day :: "datetime \<Rightarrow> datetime" where
  "start_of_day now = now\<lparr>dt_hour := 0, dt_minute := 0, dt_second := 0, dt_microsecond := 0\<rparr>"

text \<open>
  The body of \<open>generate_daily_forecast\<close> up to the loop's end: the value of its
  local list \<open>forecast_data\<close>, one entry per projected day. (The local variable
  \<open>current_balance\<close> of the method is \<open>running_balance\<close> here; the name is the
  tracker's field.)
\<close>

definition daily_forecast_data ::
  "'a::{plus,uminus,ord,zero} FinanceTracker \<Rightarrow> datetime \<Rightarrow> int
     \<Rightarrow> error + 'a forecast_entry list" where
  "daily_forecast_data self now max_days =
     (let start_date = start_of_day now;
          running_balance = initial_balance self;
          srt = sorted_transactions self
      in forecast_loop self srt start_date [0..<nat max_days] running_balance [])"

text \<open>
  \<open>strftime("%Y-%m-%d")\<close> as CPython renders it through the C library of glibc: the
  year in decimal without padding (four digits from the year 1000 on), month and day
  zero-padded to two digits.
\<close>

definition digit_char :: "nat \<Rightarrow> char" where
  "digit_char n = ''0123456789'' ! (n mod 10)"

fun decimal :: "nat \<Rightarrow> string" where
  "decimal n = (if n < 10 then [digit_char n] else decimal (n div 10) @ [digit_char n])"

declare decimal.simps [simp del]

definition strftime_ymd :: "datetime \<Rightarrow> string" where
  "strftime_ymd dt =
     decimal (dt_year dt) @ ''-'' @
     [digit_char (dt_month dt div 10), digit_char (dt_month dt)] @ ''-'' @
     [digit_char (dt_day dt div 10), digit_char (dt_day dt)]"

text \<open>
  \<open>_create_forecast_dataframe\<close>: one row per transaction of an entry, or one
  placeholder row for a day without transactions.
\<close>

definition create_forecast_dataframe ::
  "'a::{abs,ord,zero} forecast_entry list \<Rightarrow> 'a row list" where
  "create_forecast_dataframe forecast_data =
     concat (map (\<lambda>entry.
       if e_transactions entry \<noteq> []
       then map (\<lambda>transaction.
              \<lparr>r_Date = strftime_ymd (e_date entry),
               r_Transaction = tx_name transaction,
               r_Income = (if tx_amount transaction > 0 then \<bar>tx_amount transaction\<bar> else 0),
               r_Expense = (if tx_amount transaction < 0 then \<bar>tx_amount transaction\<bar> else 0),
               r_Balance = e_balance entry\<rparr>) (e_transactions entry)
       else [\<lparr>r_Date = strftime_ymd (e_date entry), r_Transaction = ''-'',
              r_Income = 0, r_Expense = 0, r_Balance = e_balance entry\<rparr>]) forecast_data)"

text \<open>
  \<open>generate_daily_forecast\<close> assigns to no attribute of \<open>self\<close> and does not call
  \<open>save_data\<close>: the state it returns is the one it was given.
\<close>

definition generate_daily_forecast ::
  "datetime \<Rightarrow> int \<Rightarrow> 'a::{plus,uminus,abs,ord,zero} state
     \<Rightarrow> (error + 'a row list) \<times> 'a state" where
  "generate_daily_forecast now max_days s =
     (case daily_forecast_data (tracker s) now max_days of
        Inl e \<Rightarrow> (Inl e, s)
      | Inr fd \<Rightarrow> (Inr (create_forecast_dataframe fd), s))"

subsection \<open>Runs of the loop\<close>

text \<open>
  A proof device, not a function of the source: \<open>is_trace self srt start offs bal es\<close>
  says that \<open>es\<close> is the list of entries the loop appends when it visits the offsets
  \<open>offs\<close> starting from the balance \<open>bal\<close>. The loop is shown to produce such a
  list, and the properties of the forecast are read off it.
\<close>

fun is_trace ::
  "'a::{plus,uminus,ord,zero} FinanceTracker \<Rightarrow> 'a OneTimeTransaction list \<Rightarrow> datetime
     \<Rightarrow> nat list \<Rightarrow> 'a \<Rightarrow> 'a forecast_entry list \<Rightarrow> bool" where
  "is_trace self srt start_date [] bal es = (es = [])"
| "is_trace self srt start_date (off # offs) bal [] = False"
| "is_trace self srt start_date (off # offs) bal (e # es) =
     (add_days start_date off = Inr (e_date e) \<and>
      e_transactions e = day_transactions self srt (e_date e) \<and>
      e_balance e = foldl (\<lambda>b transaction. b + tx_amount transaction) bal (e_transactions e) \<and>
      (if e_balance e \<le> 0 then es = [] else is_trace self srt start_date offs (e_balance e) es))"

subsection \<open>Example inputs\<close>

text \<open>
  Concrete inputs and runs for the witnesses below: \<open>datetime_ymd y m d\<close> is Python's
  \<open>datetime(y, m, d)\<close> (midnight), \<open>clock y m d\<close> a reading of the clock during
  that day. \<open>scenario_tracker b\<close> is the tracker of the spec's second scenario (no
  recurring transactions, one one-time income of 500 on 2026-11-15) with initial balance
  \<open>b\<close>; \<open>bonus_tracker\<close> is a fresh tracker with balance 30000 after
  \<open>add_monthly_income(31, 500, "Bonus")\<close>. The three runs are the values of
  \<open>forecast_data\<close> for a fresh tracker from 2026-11-13 with balance 100000 over 3
  days and with balance 30000 over 5 days, and for \<open>bonus_tracker\<close> from
  2026-11-29 over 3 days. These examples are on Python's integers.
\<close>

definition datetime_ymd :: "nat \<Rightarrow> nat \<Rightarrow> nat \<Rightarrow> datetime" where
  "datetime_ymd y m d = \<lparr>dt_year = y, dt_month = m, dt_day = d, dt_hour = 0, dt_minute = 0,
                          dt_second = 0, dt_microsecond = 0\<rparr>"

definition clock :: "nat \<Rightarrow> nat \<Rightarrow> nat \<Rightarrow> datetime" where
  "clock y m d = \<lparr>dt_year = y, dt_month = m, dt_day = d, dt_hour = 14, dt_minute = 47,
                   dt_second = 9, dt_microsecond = 5\<rparr>"

definition scenario_tracker :: "int \<Rightarrow> int FinanceTracker" where
  "scenario_tracker b =
     \<lparr>data_file = ''finance_data.json'', initial_balance = b, current_balance = b,
      monthly_incomes = [], monthly_expenses = [],
      one_time_transactions =
        [\<lparr>ot_date = datetime_ymd 2026 11 15,
          ot_amount = 500, ot_type = ''income'', ot_name = ''One-time Income'',
          ot_color = ''green''\<rparr>]\<rparr>"

definition bonus_tracker :: "int FinanceTracker" where
  "bonus_tracker =
     tracker (snd (add_monthly_income 31 500 ''Bonus'' ''green'' (init_no_file 30000)))"

definition rent_run :: "int forecast_entry list" where
  "rent_run =
     [\<lparr>e_date = datetime_ymd 2026 11 13, e_transactions = [], e_balance = 100000\<rparr>,
      \<lparr>e_date = datetime_ymd 2026 11 14,
        e_transactions = [\<lparr>tx_type = ''expense'', tx_name = ''Rent'', tx_amount = - 35000,
                           tx_color = ''red''\<rparr>],
        e_balance = 65000\<rparr>,
      \<lparr>e_date = datetime_ymd 2026 11 15, e_transactions = [], e_balance = 65000\<rparr>]"

definition depleted_run :: "int forecast_entry list" where
  "depleted_run =
     [\<lparr>e_date = datetime_ymd 2026 11 13, e_transactions = [], e_balance = 30000\<rparr>,
      \<lparr>e_date = datetime_ymd 2026 11 14,
        e_transactions = [\<lparr>tx_type = ''expense'', tx_name = ''Rent'', tx_amount = - 35000,
                           tx_color = ''red''\<rparr>],
        e_balance = - 5000\<rparr>]"

definition month_end_run :: "int forecast_entry list" where
  "month_end_run =
     [\<lparr>e_date = datetime_ymd 2026 11 29, e_transactions = [], e_balance = 30000\<rparr>,
      \<lparr>e_date = datetime_ymd 2026 11 30, e_transactions = [], e_balance = 30000\<rparr>,
      \<lparr>e_date = datetime_ymd 2026 12 1, e_transactions = [], e_balance = 30000\<rparr>]"

text \<open>
  A tracker whose one-time list holds, in this order, an expense dated 2026-11-14 (in the
  afternoon), an income dated 2026-11-13 and an income dated 2026-11-14.
\<close>

definition same_day_tracker :: "int FinanceTracker" where
  "same_day_tracker =
     \<lparr>data_file = ''finance_data.json'', initial_balance = 1000, current_balance = 1000,
      monthly_incomes = [], monthly_expenses = [],
      one_time_transactions =
        [\<lparr>ot_date = clock 2026 11 14, ot_amount = - 200, ot_type = ''expense'',
          ot_name = ''Shoes'', ot_color = ''red''\<rparr>,
         \<lparr>ot_date = datetime_ymd 2026 11 13, ot_amount = 50, ot_type = ''income'',
          ot_name = ''Refund'', ot_color = ''green''\<rparr>,
         \<lparr>ot_date = datetime_ymd 2026 11 14, ot_amount = 70, ot_type = ''income'',
          ot_name = ''Gift'', ot_color = ''green''\<rparr>]\<rparr>"

text \<open>
  A tracker on floats: the balance \<open>0.1\<close>, the default recurring transactions, and two
  one-time transactions dated 2026-11-13, an income of \<open>0.2\<close> and then an expense of
  \<open>0.3\<close> (stored as \<open>-0.3\<close>).
\<close>

definition float_tracker :: "double FinanceTracker" where
  "float_tracker =
     \<lparr>data_file = ''finance_data.json'', initial_balance = round_double (1 / 10),
      current_balance = round_double (1 / 10),
      monthly_incomes =
        [\<lparr>t_day = 21, t_amount = Finite 13000, t_name = ''Pension'', t_color = ''green''\<rparr>],
      monthly_expenses =
        [\<lparr>t_day = 14, t_amount = Finite 35000, t_name = ''Rent'', t_color = ''red''\<rparr>,
         \<lparr>t_day = 22, t_amount = Finite 900, t_name = ''Internet'', t_color = ''darkred''\<rparr>],
      one_time_transactions =
        [\<lparr>ot_date = datetime_ymd 2026 11 13, ot_amount = round_double (2 / 10),
          ot_type = ''income'', ot_name = ''One-time Income'', ot_color = ''green''\<rparr>,
         \<lparr>ot_date = datetime_ymd 2026 11 13, ot_amount = - round_double (3 / 10),
          ot_type = ''expense'', ot_name = ''One-time Expense'', ot_color = ''red''\<rparr>]\<rparr>"

text \<open>
  The run of \<open>same_day_tracker\<close> from 2026-11-13 over 2 days.
\<close>

definition same_day_run :: "int forecast_entry list" where
  "same_day_run =
     [\<lparr>e_date = datetime_ymd 2026 11 13,
        e_transactions = [\<lparr>tx_type = ''income'', tx_name = ''Refund'', tx_amount = 50,
                           tx_color = ''green''\<rparr>],
        e_balance = 1050\<rparr>,
      \<lparr>e_date = datetime_ymd 2026 11 14,
        e_transactions = [\<lparr>tx_type = ''expense'', tx_name = ''Shoes'', tx_amount = - 200,
                           tx_color = ''red''\<rparr>,
                          \<lparr>tx_type = ''income'', tx_name = ''Gift'', tx_amount = 70,
                           tx_color = ''green''\<rparr>],
        e_balance = 920\<rparr>]"

text \<open>The run of \<open>float_tracker\<close> from 2026-11-13 over 1 day.\<close>

definition float_run :: "double forecast_entry list" where
  "float_run =
     [\<lparr>e_date = datetime_ymd 2026 11 13,
        e_transactions =
          [\<lparr>tx_type = ''income'', tx_name = ''One-time Income'',
            tx_amount = round_double (2 / 10), tx_color = ''green''\<rparr>,
           \<lparr>tx_type = ''expense'', tx_name = ''One-time Expense'',
            tx_amount = - round_double (3 / 10), tx_color = ''red''\<rparr>],
        e_balance = round_double (1 / 10) + round_double (2 / 10) + - round_double (3 / 10)\<rparr>]"

section \<open>Properties of the calendar\<close>

lemma days_in_month_bounds: "28 \<le> days_in_month y m \<and> days_in_month y m \<le> 31"
  by (simp add: days_in_month_def)

lemma next_day_less: "next_day d = Inr d' \<Longrightarrow> date_of d < date_of d'"
  by (auto simp: next_day_def date_of_def split: if_splits)

lemma next_day_valid: "valid_datetime d \<Longrightarrow> next_day d = Inr d' \<Longrightarrow> valid_datetime d'"
  using days_in_month_bounds [of "dt_year d" "Suc (dt_month d)"]
    days_in_month_bounds [of "Suc (dt_year d)" 1]
  by (auto simp: next_day_def valid_datetime_def split: if_splits)

lemma add_days_valid: "valid_datetime d \<Longrightarrow> add_days d k = Inr d' \<Longrightarrow> valid_datetime d'"
  by (induction k arbitrary: d') (auto split: sum.splits dest: next_day_valid)

lemma add_days_Suc_Inr: "add_days d (Suc k) = Inr b \<Longrightarrow> \<exists>a. add_days d k = Inr a \<and> next_day a = Inr b"
  by (auto split: sum.splits)

lemma add_days_prefix: "add_days d k = Inr b \<Longrightarrow> j \<le> k \<Longrightarrow> \<exists>a. add_days d j = Inr a"
proof (induction k arbitrary: b)
  case 0
  then show ?case by simp
next
  case (Suc k)
  from add_days_Suc_Inr [OF Suc.prems(1)] obtain a where a: "add_days d k = Inr a" by blast
  show ?case
  proof (cases "j = Suc k")
    case True
    with Suc.prems show ?thesis by blast
  next
    case False
    with Suc.prems have "j \<le> k" by simp
    from Suc.IH [OF a this] show ?thesis .
  qed
qed

lemma add_days_less:
  "add_days d k = Inr b \<Longrightarrow> j < k \<Longrightarrow> add_days d j = Inr a \<Longrightarrow> date_of a < date_of b"
proof (induction k arbitrary: b)
  case 0
  then show ?case by simp
next
  case (Suc k)
  from add_days_Suc_Inr [OF Suc.prems(1)] obtain c where
    c: "add_days d k = Inr c" "next_day c = Inr b" by blast
  from next_day_less [OF c(2)] have cb: "date_of c < date_of b" .
  show ?case
  proof (cases "j = k")
    case True
    with c(1) Suc.prems(3) cb show ?thesis by simp
  next
    case False
    with Suc.prems have "j < k" by simp
    from Suc.IH [OF c(1) this Suc.prems(3)] cb show ?thesis by simp
  qed
qed

section \<open>Properties of the loop\<close>

lemma day_transactions_eq:
  "day_transactions self srt d =
     map (\<lambda>income. \<lparr>tx_type = ''income'', tx_name = t_name income,
                     tx_amount = t_amount income, tx_color = t_color income\<rparr>)
       (filter (\<lambda>income. t_day income = int (dt_day d)) (monthly_incomes self)) @
     map (\<lambda>expense. \<lparr>tx_type = ''expense'', tx_name = t_name expense,
                      tx_amount = - t_amount expense, tx_color = t_color expense\<rparr>)
       (filter (\<lambda>expense. t_day expense = int (dt_day d)) (monthly_expenses self)) @
     map (\<lambda>t. \<lparr>tx_type = ot_type t, tx_name = ot_name t,
                tx_amount = ot_amount t, tx_color = ot_color t\<rparr>)
       (filter (\<lambda>t. date_of (ot_date t) = date_of d) srt)"
  by (simp add: day_transactions_def Let_def list_ex_iff filter_empty_conv)

lemma forecast_loop_trace:
  "forecast_loop self srt start offs bal acc = Inr res \<Longrightarrow>
     \<exists>es. res = acc @ es \<and> is_trace self srt start offs bal es"
proof (induction offs arbitrary: bal acc)
  case Nil
  then show ?case by simp
next
  case (Cons off offs)
  from Cons.prems obtain d where d: "add_days start off = Inr d"
    by (auto split: sum.splits)
  let ?dts = "day_transactions self srt d"
  let ?b = "foldl (\<lambda>b transaction. b + tx_amount transaction) bal ?dts"
  let ?e = "\<lparr>e_date = d, e_transactions = ?dts, e_balance = ?b\<rparr>"
  show ?case
  proof (cases "?b \<le> 0")
    case True
    with Cons.prems d have "res = acc @ [?e]"
      by (simp add: Let_def)
    moreover from True d have "is_trace self srt start (off # offs) bal [?e]"
      by simp
    ultimately show ?thesis by blast
  next
    case False
    with Cons.prems d have "forecast_loop self srt start offs ?b (acc @ [?e]) = Inr res"
      by (simp add: Let_def)
    from Cons.IH [OF this] obtain es where
      es: "res = (acc @ [?e]) @ es" "is_trace self srt start offs ?b es"
      by blast
    from es(2) False d have "is_trace self srt start (off # offs) bal (?e # es)"
      by simp
    with es(1) show ?thesis by auto
  qed
qed

lemma forecast_loop_returns:
  "\<forall>off\<in>set offs. \<exists>d. add_days start off = Inr d \<Longrightarrow>
     \<exists>res. forecast_loop self srt start offs bal acc = Inr res"
proof (induction offs arbitrary: bal acc)
  case Nil
  then show ?case by simp
next
  case (Cons off offs)
  then obtain d where d: "add_days start off = Inr d" by auto
  from Cons.prems have rest: "\<forall>off\<in>set offs. \<exists>d. add_days start off = Inr d" by simp
  show ?case
    using Cons.IH [OF rest] d by (simp add: Let_def)
qed

lemma is_trace_length: "is_trace self srt start offs bal es \<Longrightarrow> length es \<le> length offs"
  by (induction self srt start offs bal es rule: is_trace.induct) (auto split: if_splits)

lemma is_trace_nonempty: "is_trace self srt start offs bal es \<Longrightarrow> offs \<noteq> [] \<Longrightarrow> es \<noteq> []"
  by (cases offs; cases es) auto

lemma is_trace_date:
  "is_trace self srt start offs bal es \<Longrightarrow> i < length es \<Longrightarrow>
     add_days start (offs ! i) = Inr (e_date (es ! i))"
proof (induction self srt start offs bal es arbitrary: i rule: is_trace.induct)
  case (3 self srt start off offs bal e es)
  then show ?case by (cases i) (auto split: if_splits)
qed simp_all

lemma is_trace_transactions:
  "is_trace self srt start offs bal es \<Longrightarrow> i < length es \<Longrightarrow>
     e_transactions (es ! i) = day_transactions self srt (e_date (es ! i))"
proof (induction self srt start offs bal es arbitrary: i rule: is_trace.induct)
  case (3 self srt start off offs bal e es)
  then show ?case by (cases i) (auto split: if_splits)
qed simp_all

lemma is_trace_balance:
  "is_trace self srt start offs bal es \<Longrightarrow> i < length es \<Longrightarrow>
     e_balance (es ! i) =
       foldl (\<lambda>b transaction. b + tx_amount transaction)
         (if i = 0 then bal else e_balance (es ! (i - 1))) (e_transactions (es ! i))"
proof (induction self srt start offs bal es arbitrary: i rule: is_trace.induct)
  case (3 self srt start off offs bal e es)
  show ?case
  proof (cases i)
    case 0
    with "3.prems" show ?thesis by simp
  next
    case (Suc j)
    with "3.prems" have pos: "\<not> e_balance e \<le> 0" and j: "j < length es"
      by (auto split: if_splits)
    from "3.prems"(1) pos have "is_trace self srt start offs (e_balance e) es"
      by (metis is_trace.simps(3))
    from "3.IH" [OF pos this j] Suc show ?thesis
      by (cases j) simp_all
  qed
qed simp_all

lemma is_trace_positive:
  "is_trace self srt start offs bal es \<Longrightarrow> Suc i < length es \<Longrightarrow> \<not> e_balance (es ! i) \<le> 0"
proof (induction self srt start offs bal es arbitrary: i rule: is_trace.induct)
  case (3 self srt start off offs bal e es)
  then show ?case by (cases i) (auto split: if_splits)
qed simp_all

lemma is_trace_short:
  "is_trace self srt start offs bal es \<Longrightarrow> length es < length offs \<Longrightarrow>
     es \<noteq> [] \<and> e_balance (last es) \<le> 0"
proof (induction self srt start offs bal es rule: is_trace.induct)
  case (3 self srt start off offs bal e es)
  then show ?case by (auto split: if_splits)
qed simp_all

subsection \<open>The entries of a forecast\<close>

lemma daily_forecast_data_trace:
  "daily_forecast_data self now max_days = Inr es \<Longrightarrow>
     is_trace self (sorted_transactions self) (start_of_day now) [0..<nat max_days]
       (initial_balance self) es"
  by (auto simp: daily_forecast_data_def Let_def dest: forecast_loop_trace)

lemma daily_forecast_data_length:
  "daily_forecast_data self now max_days = Inr es \<Longrightarrow> length es \<le> nat max_days"
  by (drule daily_forecast_data_trace, drule is_trace_length) simp

lemma daily_forecast_data_date:
  assumes "daily_forecast_data self now max_days = Inr es" and "i < length es"
  shows "add_days (start_of_day now) i = Inr (e_date (es ! i))"
proof -
  from assms have "i < nat max_days"
    using daily_forecast_data_length [OF assms(1)] by simp
  then have "[0..<nat max_days] ! i = i" by simp
  with is_trace_date [OF daily_forecast_data_trace [OF assms(1)] assms(2)] show ?thesis
    by simp
qed

lemma daily_forecast_data_transactions:
  assumes "daily_forecast_data self now max_days = Inr es" and "i < length es"
  shows "e_transactions (es ! i) =
     map (\<lambda>income. \<lparr>tx_type = ''income'', tx_name = t_name income,
                     tx_amount = t_amount income, tx_color = t_color income\<rparr>)
       (filter (\<lambda>income. t_day income = int (dt_day (e_date (es ! i)))) (monthly_incomes self)) @
     map (\<lambda>expense. \<lparr>tx_type = ''expense'', tx_name = t_name expense,
                      tx_amount = - t_amount expense, tx_color = t_color expense\<rparr>)
       (filter (\<lambda>expense. t_day expense = int (dt_day (e_date (es ! i)))) (monthly_expenses self)) @
     map (\<lambda>t. \<lparr>tx_type = ot_type t, tx_name = ot_name t,
                tx_amount = ot_amount t, tx_color = ot_color t\<rparr>)
       (filter (\<lambda>t. date_of (ot_date t) = date_of (e_date (es ! i))) (one_time_transactions self))"
  using is_trace_transactions [OF daily_forecast_data_trace [OF assms(1)] assms(2)]
    sort_key_stable [of "\<lambda>x. date_of (ot_date x)" "date_of (e_date (es ! i))" "one_time_transactions self"]
  by (simp add: day_transactions_eq sorted_transactions_def)

lemma daily_forecast_data_returns:
  assumes "add_days (start_of_day now) (nat max_days - 1) = Inr dl"
  shows "\<exists>es. daily_forecast_data self now max_days = Inr es"
proof -
  have "\<forall>off\<in>set [0..<nat max_days]. \<exists>d. add_days (start_of_day now) off = Inr d"
  proof
    fix off assume "off \<in> set [0..<nat max_days]"
    then have "off \<le> nat max_days - 1" by auto
    from add_days_prefix [OF assms this] show "\<exists>d. add_days (start_of_day now) off = Inr d" .
  qed
  from forecast_loop_returns [OF this] show ?thesis
    by (simp add: daily_forecast_data_def Let_def)
qed

subsection \<open>What a forecast depends on\<close>

lemma upt_5: "[0..<5] = [0, 1, 2, 3, 4::nat]"
  by code_simp

lemma day_transactions_cong:
  "monthly_incomes a = monthly_incomes b \<Longrightarrow> monthly_expenses a = monthly_expenses b \<Longrightarrow>
     day_transactions a srt d = day_transactions b srt d"
  by (simp add: day_transactions_def)

lemma forecast_loop_cong:
  assumes "monthly_incomes a = monthly_incomes b" and "monthly_expenses a = monthly_expenses b"
  shows "forecast_loop a srt st offs bal acc = forecast_loop b srt st offs bal acc"
  by (induction offs arbitrary: bal acc)
    (simp_all add: day_transactions_cong [OF assms] Let_def split: sum.splits)

lemma start_of_day_cong: "date_of now' = date_of now \<Longrightarrow> start_of_day now' = start_of_day now"
  by (cases now; cases now') (simp add: date_of_def start_of_day_def)

lemma daily_forecast_data_cong:
  assumes "initial_balance a = initial_balance b" and "monthly_incomes a = monthly_incomes b"
    and "monthly_expenses a = monthly_expenses b"
    and "one_time_transactions a = one_time_transactions b"
    and "date_of now' = date_of now"
  shows "daily_forecast_data a now' max_days = daily_forecast_data b now max_days"
  using assms(1,4) forecast_loop_cong [OF assms(2,3)] start_of_day_cong [OF assms(5)]
  by (simp add: daily_forecast_data_def sorted_transactions_def)

lemma sorted_transactions_sorted:
  "sorted (map (\<lambda>x. date_of (ot_date x)) (sorted_transactions self))"
  by (simp add: sorted_transactions_def)

lemma generate_daily_forecast_state: "snd (generate_daily_forecast now max_days s) = s"
  by (simp add: generate_daily_forecast_def split: sum.splits)

text \<open>The data frame returned is the rendering of the entries, an exception passes through.\<close>

lemma generate_daily_forecast_rows:
  "fst (generate_daily_forecast now max_days s) =
     map_sum id create_forecast_dataframe (daily_forecast_data (tracker s) now max_days)"
  by (simp add: generate_daily_forecast_def split: sum.splits)

lemma generate_daily_forecast_cong:
  assumes "initial_balance (tracker s') = initial_balance (tracker s)"
    and "monthly_incomes (tracker s') = monthly_incomes (tracker s)"
    and "monthly_expenses (tracker s') = monthly_expenses (tracker s)"
    and "one_time_transactions (tracker s') = one_time_transactions (tracker s)"
    and "date_of now' = date_of now"
  shows "fst (generate_daily_forecast now' max_days s') = fst (generate_daily_forecast now max_days s)"
  using daily_forecast_data_cong [OF assms, of max_days]
  by (simp add: generate_daily_forecast_def split: sum.splits)

lemma daily_forecast_data_dates_increase:
  assumes "daily_forecast_data self now max_days = Inr es" and "i < length es" and "j < i"
  shows "date_of (e_date (es ! j)) < date_of (e_date (es ! i))"
proof -
  from assms(2,3) have j: "j < length es" by simp
  from add_days_less [OF daily_forecast_data_date [OF assms(1,2)] assms(3)
      daily_forecast_data_date [OF assms(1) j]]
  show ?thesis .
qed

lemma daily_forecast_data_balance:
  assumes "daily_forecast_data self now max_days = Inr es" and "i < length es"
  shows "e_balance (es ! i) =
     foldl (\<lambda>b transaction. b + tx_amount transaction)
       (if i = 0 then initial_balance self else e_balance (es ! (i - 1)))
       (e_transactions (es ! i))"
  by (rule is_trace_balance [OF daily_forecast_data_trace [OF assms(1)] assms(2)])

text \<open>Where addition is associative and 0 is neutral on the left, accumulating is summing.\<close>

lemma foldl_spec_sum:
  fixes b :: "'a::{plus,zero}"
  assumes assoc: "\<And>x y z::'a. x + y + z = x + (y + z)"
    and zero_left: "\<And>x::'a. 0 + x = x" and zero_right: "\<And>x::'a. x + 0 = x"
  shows "foldl (+) b xs = b + spec_sum xs"
proof (cases xs)
  case Nil
  then show ?thesis by (simp add: spec_sum_def zero_right)
next
  case (Cons x xs')
  have gen: "foldl (+) (c + d) ys = c + foldl (+) d ys" for c d :: 'a and ys
    by (induction ys arbitrary: d) (simp_all add: assoc)
  from Cons show ?thesis by (simp add: spec_sum_def gen zero_left)
qed

subsection \<open>The checks of the add operations on any number type\<close>

text \<open>
  What each operation returns is decided by the code's own comparison alone, on integers
  and on floats alike (a NaN is neither \<open>\<le> 0\<close> nor \<open>< 0\<close> and passes every check).
\<close>

lemma add_income_outcome:
  "fst (add_income amount date oname color now s) =
     (if amount \<le> 0 then Inl (ValueError ''Income amount must be positive'') else Inr ())"
  by (simp add: add_income_def Let_def)

lemma add_expense_outcome:
  "fst (add_expense amount date oname color now s) =
     (if amount \<le> 0 then Inl (ValueError ''Expense amount must be positive'') else Inr ())"
  by (simp add: add_expense_def Let_def)

lemma add_monthly_income_outcome:
  "fst (add_monthly_income day amount name color s) =
     (if \<not> (1 \<le> day \<and> day \<le> 31) then Inl (ValueError ''Day must be between 1 and 31'')
      else if amount \<le> 0 then Inl (ValueError ''Income amount must be positive'')
      else Inr ())"
  by (simp add: add_monthly_income_def Let_def)

lemma add_monthly_expense_outcome:
  "fst (add_monthly_expense day amount name color s) =
     (if \<not> (1 \<le> day \<and> day \<le> 31) then Inl (ValueError ''Day must be between 1 and 31'')
      else if amount \<le> 0 then Inl (ValueError ''Expense amount must be positive'')
      else Inr ())"
  by (simp add: add_monthly_expense_def Let_def)

lemma update_initial_balance_outcome:
  "fst (update_initial_balance balance s) =
     (if balance < 0 then Inl (ValueError ''Initial balance cannot be negative'') else Inr ())"
  by (simp add: update_initial_balance_def Let_def)

text \<open>On floats, as on a linear order, a positive number is not \<open>\<le> 0\<close>.\<close>

lemma double_positive: "0 < a \<Longrightarrow> \<not> a \<le> 0" for a :: double
  by (cases a) (simp_all add: zero_double_def)

lemma double_nonnegative: "0 \<le> a \<Longrightarrow> \<not> a < 0" for a :: double
  by (cases a) (simp_all add: zero_double_def)

section \<open>The claims\<close>

text \<open>
  The claims speak of the entries a projection emits: these are the elements of the list
  \<open>forecast_data\<close> the loop appends to, which the returned data frame renders row by
  row. A theorem that fixes no type holds for every number type, Python's integers and
  floats among them; the scenario of C3 is stated on the integers, and C7 and C10 on any
  linearly ordered number type.
\<close>

text \<open>
  C1 (as the code has it). In every list of entries the forecast produces, the balance of
  an entry is the result of adding the amounts applied on the entry's date, one at a time
  and in the order they are applied, to the balance of the entry before it (to the
  initial balance, for the first entry). The amounts applied are the amounts of the
  recurring incomes of that day of the month, then the negated amounts of the recurring
  expenses of that day of the month, then the stored signed amounts of the one-time
  transactions of that date. Where the addition is exact (associative, with \<open>0\<close>
  neutral, as on integers) this balance is the previous balance plus the sum of those
  amounts.
\<close>

theorem balance_accumulates:
  fixes self :: "'a::{plus,uminus,ord,zero} FinanceTracker"
  assumes "daily_forecast_data self now max_days = Inr es" and "i < length es"
  shows "e_balance (es ! i) =
           foldl (+) (if i = 0 then initial_balance self else e_balance (es ! (i - 1)))
             (map tx_amount (e_transactions (es ! i)))
         \<and> map tx_amount (e_transactions (es ! i)) =
           map t_amount
             (filter (\<lambda>t. t_day t = int (dt_day (e_date (es ! i)))) (monthly_incomes self)) @
           map (\<lambda>t. - t_amount t)
             (filter (\<lambda>t. t_day t = int (dt_day (e_date (es ! i)))) (monthly_expenses self)) @
           map ot_amount
             (filter (\<lambda>t. date_of (ot_date t) = date_of (e_date (es ! i)))
                (one_time_transactions self))
         \<and> ((\<forall>x y z::'a. x + y + z = x + (y + z)) \<and> (\<forall>x::'a. 0 + x = x \<and> x + 0 = x) \<longrightarrow>
            e_balance (es ! i) =
              (if i = 0 then initial_balance self else e_balance (es ! (i - 1))) +
              spec_sum (map tx_amount (e_transactions (es ! i))))"
proof (intro conjI impI)
  show acc: "e_balance (es ! i) =
           foldl (+) (if i = 0 then initial_balance self else e_balance (es ! (i - 1)))
             (map tx_amount (e_transactions (es ! i)))"
    using daily_forecast_data_balance [OF assms] by (simp add: foldl_map)
  show "map tx_amount (e_transactions (es ! i)) =
           map t_amount
             (filter (\<lambda>t. t_day t = int (dt_day (e_date (es ! i)))) (monthly_incomes self)) @
           map (\<lambda>t. - t_amount t)
             (filter (\<lambda>t. t_day t = int (dt_day (e_date (es ! i)))) (monthly_expenses self)) @
           map ot_amount
             (filter (\<lambda>t. date_of (ot_date t) = date_of (e_date (es ! i)))
                (one_time_transactions self))"
    by (simp add: daily_forecast_data_transactions [OF assms] comp_def)
  assume exact: "(\<forall>x y z::'a. x + y + z = x + (y + z)) \<and> (\<forall>x::'a. 0 + x = x \<and> x + 0 = x)"
  then have "foldl (+) b xs = b + spec_sum xs" for b :: 'a and xs
    by (intro foldl_spec_sum) simp_all
  with acc show "e_balance (es ! i) =
              (if i = 0 then initial_balance self else e_balance (es ! (i - 1))) +
              spec_sum (map tx_amount (e_transactions (es ! i)))"
    by simp
qed

theorem balance_accumulates_witness:
  "daily_forecast_data (tracker (init_no_file (100000::int))) (clock 2026 11 13) 3 = Inr rent_run
   \<and> (1::nat) < length rent_run
   \<and> e_balance (rent_run ! 1) = foldl (+) (e_balance (rent_run ! 0)) [- 35000]
   \<and> e_balance (rent_run ! 1) = e_balance (rent_run ! 0) + spec_sum [- 35000]
   \<and> daily_forecast_data float_tracker (clock 2026 11 13) 1 = Inr float_run
   \<and> e_balance (float_run ! 0) =
       foldl (+) (round_double (1 / 10)) [round_double (2 / 10), - round_double (3 / 10)]"
proof -
  have run: "daily_forecast_data (tracker (init_no_file (100000::int))) (clock 2026 11 13) 3 =
      Inr rent_run"
    by code_simp
  have len: "(1::nat) < length rent_run" by (simp add: rent_run_def)
  have exact: "(\<forall>x y z::int. x + y + z = x + (y + z)) \<and> (\<forall>x::int. 0 + x = x \<and> x + 0 = x)"
    by simp
  have txs: "map tx_amount (e_transactions (rent_run ! 1)) = [- 35000]"
    by (simp add: rent_run_def)
  from balance_accumulates [OF run len] exact txs
  have int_run: "e_balance (rent_run ! 1) = foldl (+) (e_balance (rent_run ! 0)) [- 35000]"
    "e_balance (rent_run ! 1) = e_balance (rent_run ! 0) + spec_sum [- 35000]"
    by (simp_all add: spec_sum_def)
  have frun: "daily_forecast_data float_tracker (clock 2026 11 13) 1 = Inr float_run"
    by code_simp
  have flen: "0 < length float_run" by (simp add: float_run_def)
  have ftxs: "map tx_amount (e_transactions (float_run ! 0)) =
      [round_double (2 / 10), - round_double (3 / 10)]"
    by (simp add: float_run_def)
  have fbal: "initial_balance float_tracker = round_double (1 / 10)"
    by (simp add: float_tracker_def)
  from balance_accumulates [OF frun flen, THEN conjunct1] ftxs fbal
  have "e_balance (float_run ! 0) =
       foldl (+) (round_double (1 / 10)) [round_double (2 / 10), - round_double (3 / 10)]"
    by simp
  with run len int_run frun show ?thesis by blast
qed

text \<open>
  The claim as stated, the previous balance plus the sum of the amounts, fails on floats:
  from the balance \<open>0.1\<close>, an income of \<open>0.2\<close> and an expense of \<open>0.3\<close> on the
  first day, the loop computes \<open>(0.1 + 0.2) + -0.3\<close>, which is \<open>2 ^ -54\<close>
  (5.55e-17), whereas \<open>0.1 + sum([0.2, -0.3])\<close> is \<open>2 ^ -55\<close> (2.78e-17).
\<close>

theorem float_balance_counterexample:
  "daily_forecast_data float_tracker (clock 2026 11 13) 1 = Inr float_run
   \<and> e_balance (float_run ! 0) = Finite (1 / 18014398509481984)
   \<and> initial_balance float_tracker + spec_sum (map tx_amount (e_transactions (float_run ! 0))) =
       Finite (1 / 36028797018963968)
   \<and> e_balance (float_run ! 0) \<noteq>
       initial_balance float_tracker + spec_sum (map tx_amount (e_transactions (float_run ! 0)))"
  by code_simp

text \<open>
  C2. An entry whose balance is at most 0 is the last entry, and no entry carries a later
  date; and a forecast shorter than the horizon ends with such an entry.
\<close>

theorem early_termination:
  assumes "daily_forecast_data self now max_days = Inr es"
  shows "(\<forall>i<length es. e_balance (es ! i) \<le> 0 \<longrightarrow>
            i = length es - 1 \<and>
            (\<forall>j<length es. date_of (e_date (es ! j)) \<le> date_of (e_date (es ! i))))
         \<and> (length es < nat max_days \<longrightarrow> es \<noteq> [] \<and> e_balance (last es) \<le> 0)"
proof (intro conjI allI impI)
  fix i assume i: "i < length es" and neg: "e_balance (es ! i) \<le> 0"
  show last: "i = length es - 1"
  proof (rule ccontr)
    assume "i \<noteq> length es - 1"
    with i have "Suc i < length es" by simp
    from is_trace_positive [OF daily_forecast_data_trace [OF assms] this] neg
    show False by blast
  qed
  fix j assume j: "j < length es"
  show "date_of (e_date (es ! j)) \<le> date_of (e_date (es ! i))"
  proof (cases "j = i")
    case True
    then show ?thesis by simp
  next
    case False
    with j last have "j < i" by simp
    from add_days_less [OF daily_forecast_data_date [OF assms i] this
        daily_forecast_data_date [OF assms j]]
    show ?thesis by simp
  qed
next
  assume "length es < nat max_days"
  then have "length es < length [0..<nat max_days]" by simp
  from is_trace_short [OF daily_forecast_data_trace [OF assms] this]
  show "es \<noteq> []" and "e_balance (last es) \<le> 0" by simp_all
qed

theorem early_termination_witness:
  "daily_forecast_data (tracker (init_no_file (30000::int))) (clock 2026 11 13) 5 =
     Inr depleted_run
   \<and> length depleted_run = 2 \<and> e_balance (depleted_run ! 1) \<le> 0
   \<and> e_balance (last depleted_run) \<le> 0"
proof -
  have run: "daily_forecast_data (tracker (init_no_file (30000::int))) (clock 2026 11 13) 5 =
      Inr depleted_run"
    by code_simp
  from early_termination [OF run] run show ?thesis
    by (simp add: depleted_run_def)
qed

text \<open>
  C3 (as the code has it). In the scenario (no recurring transactions, a single one-time
  income of 500 dated on the third day, horizon 5) with initial balance 0, the forecast is
  the single entry of the first day, with balance 0: the loop stops there, the balance
  being at most 0. With a strictly positive initial balance the forecast has the five
  entries: the first two days at the initial balance, the third day at the initial balance
  plus 500 and the last two days unchanged.
\<close>

theorem scenario_one_time_income:
  fixes self :: "int FinanceTracker"
  assumes "monthly_incomes self = []" and "monthly_expenses self = []"
    and "one_time_transactions self = [t]" and "ot_amount t = 500"
    and "add_days (start_of_day now) 1 = Inr d2" and "add_days (start_of_day now) 2 = Inr d3"
    and "add_days (start_of_day now) 3 = Inr d4" and "add_days (start_of_day now) 4 = Inr d5"
    and "date_of (ot_date t) = date_of d3"
  shows "(initial_balance self = 0 \<longrightarrow>
            daily_forecast_data self now 5 =
              Inr [\<lparr>e_date = start_of_day now, e_transactions = [], e_balance = 0\<rparr>])
         \<and> (0 < initial_balance self \<longrightarrow>
            daily_forecast_data self now 5 =
              Inr [\<lparr>e_date = start_of_day now, e_transactions = [],
                     e_balance = initial_balance self\<rparr>,
                   \<lparr>e_date = d2, e_transactions = [], e_balance = initial_balance self\<rparr>,
                   \<lparr>e_date = d3,
                     e_transactions = [\<lparr>tx_type = ot_type t, tx_name = ot_name t,
                                        tx_amount = 500, tx_color = ot_color t\<rparr>],
                     e_balance = initial_balance self + 500\<rparr>,
                   \<lparr>e_date = d4, e_transactions = [], e_balance = initial_balance self + 500\<rparr>,
                   \<lparr>e_date = d5, e_transactions = [],
                     e_balance = initial_balance self + 500\<rparr>])"
proof -
  have d1: "add_days (start_of_day now) 0 = Inr (start_of_day now)" by simp
  have n1: "date_of (ot_date t) \<noteq> date_of (start_of_day now)"
    using add_days_less [OF assms(6) _ d1] assms(9) by simp
  have n2: "date_of (ot_date t) \<noteq> date_of d2"
    using add_days_less [OF assms(6) _ assms(5)] assms(9) by simp
  have n4: "date_of (ot_date t) \<noteq> date_of d4"
    using add_days_less [OF assms(7) _ assms(6)] assms(9) by simp
  have n5: "date_of (ot_date t) \<noteq> date_of d5"
    using add_days_less [OF assms(8) _ assms(6)] assms(9) by simp
  have srt: "sorted_transactions self = [t]"
    by (simp add: sorted_transactions_def assms(3))
  have dts: "day_transactions self [t] d =
      (if date_of (ot_date t) = date_of d
       then [\<lparr>tx_type = ot_type t, tx_name = ot_name t, tx_amount = 500, tx_color = ot_color t\<rparr>]
       else [])" for d
    by (simp add: day_transactions_eq assms(1,2,4))
  show ?thesis
    using n1 n2 n4 n5 assms(5-9) d1
    by (simp add: daily_forecast_data_def upt_5 srt dts Let_def del: add_days.simps)
qed

theorem scenario_one_time_income_witness:
  "add_days (start_of_day (clock 2026 11 13)) 4 = Inr (datetime_ymd 2026 11 17)
   \<and> date_of (ot_date (hd (one_time_transactions (scenario_tracker 0)))) =
       date_of (datetime_ymd 2026 11 15)
   \<and> daily_forecast_data (scenario_tracker 0) (clock 2026 11 13) 5 =
       Inr [\<lparr>e_date = start_of_day (clock 2026 11 13), e_transactions = [], e_balance = 0\<rparr>]
   \<and> daily_forecast_data (scenario_tracker 100) (clock 2026 11 13) 5 =
       Inr [\<lparr>e_date = start_of_day (clock 2026 11 13), e_transactions = [], e_balance = 100\<rparr>,
            \<lparr>e_date = datetime_ymd 2026 11 14, e_transactions = [], e_balance = 100\<rparr>,
            \<lparr>e_date = datetime_ymd 2026 11 15,
              e_transactions = [\<lparr>tx_type = ''income'', tx_name = ''One-time Income'',
                                 tx_amount = 500, tx_color = ''green''\<rparr>],
              e_balance = 600\<rparr>,
            \<lparr>e_date = datetime_ymd 2026 11 16, e_transactions = [], e_balance = 600\<rparr>,
            \<lparr>e_date = datetime_ymd 2026 11 17, e_transactions = [], e_balance = 600\<rparr>]"
proof -
  let ?now = "clock 2026 11 13"
  let ?t = "hd (one_time_transactions (scenario_tracker 0))"
  have a1: "add_days (start_of_day ?now) 1 = Inr (datetime_ymd 2026 11 14)" by code_simp
  have a2: "add_days (start_of_day ?now) 2 = Inr (datetime_ymd 2026 11 15)" by code_simp
  have a3: "add_days (start_of_day ?now) 3 = Inr (datetime_ymd 2026 11 16)" by code_simp
  have a4: "add_days (start_of_day ?now) 4 = Inr (datetime_ymd 2026 11 17)" by code_simp
  have dt: "date_of (ot_date ?t) = date_of (datetime_ymd 2026 11 15)" by code_simp
  have amt: "ot_amount ?t = 500" by code_simp
  have l0: "one_time_transactions (scenario_tracker b) = [?t]" for b
    by (simp add: scenario_tracker_def)
  have m: "monthly_incomes (scenario_tracker b) = []"
    "monthly_expenses (scenario_tracker b) = []" for b
    by (simp_all add: scenario_tracker_def)
  from scenario_one_time_income [OF m(1) m(2) l0 amt a1 a2 a3 a4 dt, of 0]
    scenario_one_time_income [OF m(1) m(2) l0 amt a1 a2 a3 a4 dt, of 100]
  show ?thesis using a4 dt by (simp add: scenario_tracker_def)
qed

text \<open>
  The scenario as the spec states it, at initial balance 0 from 2026-11-13: the forecast
  is one entry and the data frame one row, not the five days the scenario lists.
\<close>

theorem scenario_counterexample:
  "daily_forecast_data (scenario_tracker 0) (clock 2026 11 13) 5 =
     Inr [\<lparr>e_date = datetime_ymd 2026 11 13, e_transactions = [], e_balance = 0\<rparr>]
   \<and> fst (generate_daily_forecast (clock 2026 11 13) 5
          \<lparr>tracker = scenario_tracker 0, written = []\<rparr>) =
     Inr [\<lparr>r_Date = ''2026-11-13'', r_Transaction = ''-'', r_Income = 0, r_Expense = 0,
            r_Balance = 0\<rparr>]"
  by code_simp

text \<open>
  C4. For a positive horizon: while the last day of the horizon is a date of the calendar
  the forecast returns entries; and whenever it returns entries, there is at least one,
  at most one per day of the horizon, the first is dated at the start date, each
  following entry is dated the calendar day after its predecessor (so the dates increase
  strictly, without a gap), whatever the transactions of the day, and the list stops
  either at the horizon or at an entry with a balance of at most 0.
\<close>

theorem consecutive_days:
  assumes "0 < max_days"
  shows "(\<forall>dl. add_days (start_of_day now) (nat max_days - 1) = Inr dl \<longrightarrow>
            (\<exists>es. daily_forecast_data self now max_days = Inr es))
         \<and> (\<forall>es. daily_forecast_data self now max_days = Inr es \<longrightarrow>
              es \<noteq> [] \<and> length es \<le> nat max_days \<and>
              e_date (es ! 0) = start_of_day now \<and>
              (\<forall>i. Suc i < length es \<longrightarrow>
                 next_day (e_date (es ! i)) = Inr (e_date (es ! Suc i)) \<and>
                 date_of (e_date (es ! i)) < date_of (e_date (es ! Suc i))) \<and>
              (length es = nat max_days \<or> e_balance (last es) \<le> 0))"
proof (intro conjI allI impI)
  fix dl assume "add_days (start_of_day now) (nat max_days - 1) = Inr dl"
  from daily_forecast_data_returns [OF this]
  show "\<exists>es. daily_forecast_data self now max_days = Inr es" .
next
  fix es assume es: "daily_forecast_data self now max_days = Inr es"
  note tr = daily_forecast_data_trace [OF es]
  from assms have "[0..<nat max_days] \<noteq> []" by simp
  from is_trace_nonempty [OF tr this] show ne: "es \<noteq> []" .
  show len: "length es \<le> nat max_days" by (rule daily_forecast_data_length [OF es])
  from ne have "0 < length es" by simp
  from daily_forecast_data_date [OF es this] show "e_date (es ! 0) = start_of_day now" by simp
  show "length es = nat max_days \<or> e_balance (last es) \<le> 0"
  proof (cases "length es = nat max_days")
    case False
    with len have "length es < length [0..<nat max_days]" by simp
    from is_trace_short [OF tr this] show ?thesis by simp
  qed simp
  fix i assume i: "Suc i < length es"
  then have i': "i < length es" by simp
  from daily_forecast_data_date [OF es i] daily_forecast_data_date [OF es i']
  show nd: "next_day (e_date (es ! i)) = Inr (e_date (es ! Suc i))" by simp
  from next_day_less [OF nd] show "date_of (e_date (es ! i)) < date_of (e_date (es ! Suc i))" .
qed

theorem consecutive_days_witness:
  "(0::int) < 3
   \<and> add_days (start_of_day (clock 2026 11 29)) (nat 3 - 1) = Inr (datetime_ymd 2026 12 1)
   \<and> daily_forecast_data bonus_tracker (clock 2026 11 29) 3 = Inr month_end_run
   \<and> e_date (month_end_run ! 0) = start_of_day (clock 2026 11 29)
   \<and> next_day (e_date (month_end_run ! 1)) = Inr (e_date (month_end_run ! 2))
   \<and> date_of (e_date (month_end_run ! 1)) < date_of (e_date (month_end_run ! 2))"
proof -
  have pos: "(0::int) < 3" by simp
  have last_day: "add_days (start_of_day (clock 2026 11 29)) (nat 3 - 1) = Inr (datetime_ymd 2026 12 1)"
    by code_simp
  have run: "daily_forecast_data bonus_tracker (clock 2026 11 29) 3 = Inr month_end_run"
    by code_simp
  have len: "length month_end_run = 3" by (simp add: month_end_run_def)
  from consecutive_days [OF pos, of "clock 2026 11 29" bonus_tracker] run
  have "e_date (month_end_run ! 0) = start_of_day (clock 2026 11 29)"
    and "\<forall>i. Suc i < length month_end_run \<longrightarrow>
           next_day (e_date (month_end_run ! i)) = Inr (e_date (month_end_run ! Suc i)) \<and>
           date_of (e_date (month_end_run ! i)) < date_of (e_date (month_end_run ! Suc i))"
    by simp_all
  from this(1) this(2) [rule_format, of 1] len pos last_day run show ?thesis
    by (simp add: numeral_2_eq_2)
qed

text \<open>
  C5. The recurring transactions applied on a projected date are exactly those whose
  \<open>day\<close> equals the date's day of the month, incomes first, then expenses, followed
  by the one-time transactions of that date; and in a month of at most 30 days no
  recurring transaction with \<open>day = 31\<close> is among them.
\<close>

theorem recurring_exact_day:
  assumes "valid_datetime now"
    and "daily_forecast_data self now max_days = Inr es" and "i < length es"
  shows "e_transactions (es ! i) =
     map (\<lambda>income. \<lparr>tx_type = ''income'', tx_name = t_name income,
                     tx_amount = t_amount income, tx_color = t_color income\<rparr>)
       (filter (\<lambda>income. t_day income = int (dt_day (e_date (es ! i)))) (monthly_incomes self)) @
     map (\<lambda>expense. \<lparr>tx_type = ''expense'', tx_name = t_name expense,
                      tx_amount = - t_amount expense, tx_color = t_color expense\<rparr>)
       (filter (\<lambda>expense. t_day expense = int (dt_day (e_date (es ! i)))) (monthly_expenses self)) @
     map (\<lambda>t. \<lparr>tx_type = ot_type t, tx_name = ot_name t,
                tx_amount = ot_amount t, tx_color = ot_color t\<rparr>)
       (filter (\<lambda>t. date_of (ot_date t) = date_of (e_date (es ! i))) (one_time_transactions self))
    \<and> (days_in_month (dt_year (e_date (es ! i))) (dt_month (e_date (es ! i))) \<le> 30 \<longrightarrow>
         filter (\<lambda>t. t_day t = int (dt_day (e_date (es ! i))))
           (filter (\<lambda>t. t_day t = 31) (monthly_incomes self @ monthly_expenses self)) = [])"
proof
  show "e_transactions (es ! i) =
     map (\<lambda>income. \<lparr>tx_type = ''income'', tx_name = t_name income,
                     tx_amount = t_amount income, tx_color = t_color income\<rparr>)
       (filter (\<lambda>income. t_day income = int (dt_day (e_date (es ! i)))) (monthly_incomes self)) @
     map (\<lambda>expense. \<lparr>tx_type = ''expense'', tx_name = t_name expense,
                      tx_amount = - t_amount expense, tx_color = t_color expense\<rparr>)
       (filter (\<lambda>expense. t_day expense = int (dt_day (e_date (es ! i)))) (monthly_expenses self)) @
     map (\<lambda>t. \<lparr>tx_type = ot_type t, tx_name = ot_name t,
                tx_amount = ot_amount t, tx_color = ot_color t\<rparr>)
       (filter (\<lambda>t. date_of (ot_date t) = date_of (e_date (es ! i))) (one_time_transactions self))"
    by (rule daily_forecast_data_transactions [OF assms(2,3)])
next
  from assms(1) have "valid_datetime (start_of_day now)"
    by (simp add: valid_datetime_def start_of_day_def)
  from add_days_valid [OF this daily_forecast_data_date [OF assms(2,3)]]
  have "dt_day (e_date (es ! i)) \<le> days_in_month (dt_year (e_date (es ! i))) (dt_month (e_date (es ! i)))"
    by (simp add: valid_datetime_def)
  then show "days_in_month (dt_year (e_date (es ! i))) (dt_month (e_date (es ! i))) \<le> 30 \<longrightarrow>
         filter (\<lambda>t. t_day t = int (dt_day (e_date (es ! i))))
           (filter (\<lambda>t. t_day t = 31) (monthly_incomes self @ monthly_expenses self)) = []"
    by (auto simp: filter_empty_conv)
qed

theorem recurring_exact_day_witness:
  "valid_datetime (clock 2026 11 29)
   \<and> daily_forecast_data bonus_tracker (clock 2026 11 29) 3 = Inr month_end_run
   \<and> (1::nat) < length month_end_run
   \<and> days_in_month (dt_year (e_date (month_end_run ! 1))) (dt_month (e_date (month_end_run ! 1))) \<le> 30
   \<and> filter (\<lambda>t. t_day t = 31) (monthly_incomes bonus_tracker @ monthly_expenses bonus_tracker) =
       [\<lparr>t_day = 31, t_amount = 500, t_name = ''Bonus'', t_color = ''green''\<rparr>]
   \<and> filter (\<lambda>t. t_day t = int (dt_day (e_date (month_end_run ! 1))))
       (filter (\<lambda>t. t_day t = 31) (monthly_incomes bonus_tracker @ monthly_expenses bonus_tracker)) = []
   \<and> e_transactions (month_end_run ! 1) = []"
proof -
  have v: "valid_datetime (clock 2026 11 29)"
    by (simp add: valid_datetime_def clock_def days_in_month_def)
  have run: "daily_forecast_data bonus_tracker (clock 2026 11 29) 3 = Inr month_end_run"
    by code_simp
  have len: "(1::nat) < length month_end_run" by (simp add: month_end_run_def)
  have dim: "days_in_month (dt_year (e_date (month_end_run ! 1))) (dt_month (e_date (month_end_run ! 1))) \<le> 30"
    by code_simp
  have f: "filter (\<lambda>t. t_day t = 31) (monthly_incomes bonus_tracker @ monthly_expenses bonus_tracker) =
       [\<lparr>t_day = 31, t_amount = 500, t_name = ''Bonus'', t_color = ''green''\<rparr>]"
    by code_simp
  have e: "e_transactions (month_end_run ! 1) = []" by (simp add: month_end_run_def)
  from recurring_exact_day [OF v run len, THEN conjunct2, rule_format, OF dim]
  have "filter (\<lambda>t. t_day t = int (dt_day (e_date (month_end_run ! 1))))
       (filter (\<lambda>t. t_day t = 31) (monthly_incomes bonus_tracker @ monthly_expenses bonus_tracker)) = []" .
  with v run len dim f e show ?thesis by blast
qed

text \<open>
  C6. Two invocations on states that agree on the initial balance, the two recurring
  lists and the one-time list, with the same horizon and on the same calendar day, return
  the same result; so does a second invocation on the state the first one leaves. In
  every forecast the entries are in strictly ascending order of date, and the
  transactions an entry applies are the recurring ones of the day followed by the
  one-time transactions of the entry's date in the order of the one-time list, its order
  of insertion; the entry's balance is the previous balance with these amounts added one
  after the other in that order. The list the code sorts is in ascending order of date.
\<close>

theorem forecast_reproducible:
  fixes s s' :: "'a::{plus,uminus,abs,ord,zero} state"
  shows "(initial_balance (tracker s') = initial_balance (tracker s) \<and>
      monthly_incomes (tracker s') = monthly_incomes (tracker s) \<and>
      monthly_expenses (tracker s') = monthly_expenses (tracker s) \<and>
      one_time_transactions (tracker s') = one_time_transactions (tracker s) \<and>
      date_of now' = date_of now \<longrightarrow>
      fst (generate_daily_forecast now' max_days s') = fst (generate_daily_forecast now max_days s))
   \<and> (date_of now' = date_of now \<longrightarrow>
      fst (generate_daily_forecast now' max_days (snd (generate_daily_forecast now max_days s))) =
      fst (generate_daily_forecast now max_days s))
   \<and> (\<forall>es. daily_forecast_data (tracker s) now max_days = Inr es \<longrightarrow>
        (\<forall>i<length es.
           (\<forall>j<i. date_of (e_date (es ! j)) < date_of (e_date (es ! i))) \<and>
           e_transactions (es ! i) =
             map (\<lambda>income. \<lparr>tx_type = ''income'', tx_name = t_name income,
                             tx_amount = t_amount income, tx_color = t_color income\<rparr>)
               (filter (\<lambda>income. t_day income = int (dt_day (e_date (es ! i))))
                  (monthly_incomes (tracker s))) @
             map (\<lambda>expense. \<lparr>tx_type = ''expense'', tx_name = t_name expense,
                              tx_amount = - t_amount expense, tx_color = t_color expense\<rparr>)
               (filter (\<lambda>expense. t_day expense = int (dt_day (e_date (es ! i))))
                  (monthly_expenses (tracker s))) @
             map (\<lambda>t. \<lparr>tx_type = ot_type t, tx_name = ot_name t,
                        tx_amount = ot_amount t, tx_color = ot_color t\<rparr>)
               (filter (\<lambda>t. date_of (ot_date t) = date_of (e_date (es ! i)))
                  (one_time_transactions (tracker s))) \<and>
           e_balance (es ! i) =
             foldl (\<lambda>b transaction. b + tx_amount transaction)
               (if i = 0 then initial_balance (tracker s) else e_balance (es ! (i - 1)))
               (e_transactions (es ! i))))
   \<and> sorted (map (\<lambda>x. date_of (ot_date x)) (sorted_transactions (tracker s)))"
proof (intro conjI impI allI)
  assume "initial_balance (tracker s') = initial_balance (tracker s) \<and>
      monthly_incomes (tracker s') = monthly_incomes (tracker s) \<and>
      monthly_expenses (tracker s') = monthly_expenses (tracker s) \<and>
      one_time_transactions (tracker s') = one_time_transactions (tracker s) \<and>
      date_of now' = date_of now"
  then show "fst (generate_daily_forecast now' max_days s') =
      fst (generate_daily_forecast now max_days s)"
    by (intro generate_daily_forecast_cong) simp_all
next
  assume "date_of now' = date_of now"
  then show "fst (generate_daily_forecast now' max_days
        (snd (generate_daily_forecast now max_days s))) =
      fst (generate_daily_forecast now max_days s)"
    by (intro generate_daily_forecast_cong) (simp_all add: generate_daily_forecast_state)
next
  fix es i
  assume es: "daily_forecast_data (tracker s) now max_days = Inr es" and i: "i < length es"
  show "e_transactions (es ! i) =
             map (\<lambda>income. \<lparr>tx_type = ''income'', tx_name = t_name income,
                             tx_amount = t_amount income, tx_color = t_color income\<rparr>)
               (filter (\<lambda>income. t_day income = int (dt_day (e_date (es ! i))))
                  (monthly_incomes (tracker s))) @
             map (\<lambda>expense. \<lparr>tx_type = ''expense'', tx_name = t_name expense,
                              tx_amount = - t_amount expense, tx_color = t_color expense\<rparr>)
               (filter (\<lambda>expense. t_day expense = int (dt_day (e_date (es ! i))))
                  (monthly_expenses (tracker s))) @
             map (\<lambda>t. \<lparr>tx_type = ot_type t, tx_name = ot_name t,
                        tx_amount = ot_amount t, tx_color = ot_color t\<rparr>)
               (filter (\<lambda>t. date_of (ot_date t) = date_of (e_date (es ! i)))
                  (one_time_transactions (tracker s)))"
    by (rule daily_forecast_data_transactions [OF es i])
  show "e_balance (es ! i) =
             foldl (\<lambda>b transaction. b + tx_amount transaction)
               (if i = 0 then initial_balance (tracker s) else e_balance (es ! (i - 1)))
               (e_transactions (es ! i))"
    by (rule daily_forecast_data_balance [OF es i])
  fix j assume "j < i"
  from daily_forecast_data_dates_increase [OF es i this]
  show "date_of (e_date (es ! j)) < date_of (e_date (es ! i))" .
next
  show "sorted (map (\<lambda>x. date_of (ot_date x)) (sorted_transactions (tracker s)))"
    by (rule sorted_transactions_sorted)
qed

theorem forecast_reproducible_witness:
  "date_of (datetime_ymd 2026 11 13) = date_of (clock 2026 11 13)
   \<and> fst (generate_daily_forecast (datetime_ymd 2026 11 13) 2
        \<lparr>tracker = same_day_tracker\<lparr>current_balance := 77\<rparr>, written = []\<rparr>) =
      fst (generate_daily_forecast (clock 2026 11 13) 2
        \<lparr>tracker = same_day_tracker, written = []\<rparr>)
   \<and> daily_forecast_data same_day_tracker (clock 2026 11 13) 2 = Inr same_day_run
   \<and> map ot_name (one_time_transactions same_day_tracker) = [''Shoes'', ''Refund'', ''Gift'']
   \<and> map tx_name (e_transactions (same_day_run ! 1)) = [''Shoes'', ''Gift'']
   \<and> date_of (e_date (same_day_run ! 0)) < date_of (e_date (same_day_run ! 1))
   \<and> e_balance (same_day_run ! 1) = 1050 + (- 200) + 70"
proof -
  let ?s = "\<lparr>tracker = same_day_tracker, written = []\<rparr>"
  let ?s' = "\<lparr>tracker = same_day_tracker\<lparr>current_balance := 77\<rparr>, written = []\<rparr>"
  have d: "date_of (datetime_ymd 2026 11 13) = date_of (clock 2026 11 13)"
    by (simp add: date_of_def datetime_ymd_def clock_def)
  have run: "daily_forecast_data same_day_tracker (clock 2026 11 13) 2 = Inr same_day_run"
    by code_simp
  have names: "map ot_name (one_time_transactions same_day_tracker) =
      [''Shoes'', ''Refund'', ''Gift'']"
    by (simp add: same_day_tracker_def)
  have txs: "map tx_name (e_transactions (same_day_run ! 1)) = [''Shoes'', ''Gift'']"
    by (simp add: same_day_run_def)
  note inst = forecast_reproducible [of ?s' ?s "datetime_ymd 2026 11 13" "clock 2026 11 13" 2]
  from inst d have same: "fst (generate_daily_forecast (datetime_ymd 2026 11 13) 2 ?s') =
      fst (generate_daily_forecast (clock 2026 11 13) 2 ?s)"
    by simp
  from inst run have "\<forall>i<length same_day_run.
      (\<forall>j<i. date_of (e_date (same_day_run ! j)) < date_of (e_date (same_day_run ! i))) \<and>
      e_balance (same_day_run ! i) =
        foldl (\<lambda>b transaction. b + tx_amount transaction)
          (if i = 0 then initial_balance same_day_tracker else e_balance (same_day_run ! (i - 1)))
          (e_transactions (same_day_run ! i))"
    by simp
  from this [rule_format, of 1]
  have "date_of (e_date (same_day_run ! 0)) < date_of (e_date (same_day_run ! 1))"
    and "e_balance (same_day_run ! 1) = 1050 + (- 200) + 70"
    by (simp_all add: same_day_run_def)
  with d same run names txs show ?thesis by blast
qed

text \<open>
  C7 (as the code has it). The monthly adds check the day first: a day outside 1..31
  fails with the day error whatever the amount, and an amount of at most 0 fails with the
  amount error when the day is within 1..31. The one-time adds fail with the amount error
  for every amount of at most 0. With a day within 1..31 and a positive amount the
  monthly adds succeed and append the transaction; with a positive amount the one-time
  adds succeed and append one transaction.
\<close>

theorem add_validation:
  fixes amount :: "'a::{linorder,zero,uminus}"
  shows "(\<not> (1 \<le> day \<and> day \<le> 31) \<longrightarrow>
      (\<exists>e. fst (add_monthly_income day amount name color s) = Inl e \<and> InvalidDay e) \<and>
      (\<exists>e. fst (add_monthly_expense day amount name color s) = Inl e \<and> InvalidDay e))
   \<and> (1 \<le> day \<and> day \<le> 31 \<and> amount \<le> 0 \<longrightarrow>
      (\<exists>e. fst (add_monthly_income day amount name color s) = Inl e \<and> InvalidAmount e) \<and>
      (\<exists>e. fst (add_monthly_expense day amount name color s) = Inl e \<and> InvalidAmount e))
   \<and> (amount \<le> 0 \<longrightarrow>
      (\<exists>e. fst (add_income amount date oname color now s) = Inl e \<and> InvalidAmount e) \<and>
      (\<exists>e. fst (add_expense amount date oname color now s) = Inl e \<and> InvalidAmount e))
   \<and> (1 \<le> day \<and> day \<le> 31 \<and> 0 < amount \<longrightarrow>
      fst (add_monthly_income day amount name color s) = Inr () \<and>
      monthly_incomes (tracker (snd (add_monthly_income day amount name color s))) =
        monthly_incomes (tracker s) @
          [\<lparr>t_day = day, t_amount = amount, t_name = name, t_color = color\<rparr>] \<and>
      fst (add_monthly_expense day amount name color s) = Inr () \<and>
      monthly_expenses (tracker (snd (add_monthly_expense day amount name color s))) =
        monthly_expenses (tracker s) @
          [\<lparr>t_day = day, t_amount = amount, t_name = name, t_color = color\<rparr>])
   \<and> (0 < amount \<longrightarrow>
      fst (add_income amount date oname color now s) = Inr () \<and>
      map ot_amount (one_time_transactions
          (tracker (snd (add_income amount date oname color now s)))) =
        map ot_amount (one_time_transactions (tracker s)) @ [amount] \<and>
      fst (add_expense amount date oname color now s) = Inr () \<and>
      map ot_amount (one_time_transactions
          (tracker (snd (add_expense amount date oname color now s)))) =
        map ot_amount (one_time_transactions (tracker s)) @ [- amount])"
  by (simp add: add_monthly_income_def add_monthly_expense_def add_income_def add_expense_def
        save_data_def Let_def InvalidDay_def InvalidAmount_def not_less)

theorem add_validation_witness:
  "fst (add_monthly_income 32 100 ''Bonus'' ''green'' (init_no_file (0::int))) =
     Inl (ValueError ''Day must be between 1 and 31'')
   \<and> fst (add_monthly_expense 5 0 ''Gym'' ''red'' (init_no_file (0::int))) =
     Inl (ValueError ''Expense amount must be positive'')
   \<and> fst (add_expense (- 5) None None ''red'' (clock 2026 11 13) (init_no_file (0::int))) =
     Inl (ValueError ''Expense amount must be positive'')
   \<and> fst (add_monthly_income 31 100 ''Bonus'' ''green'' (init_no_file (0::int))) = Inr ()
   \<and> fst (add_income 7 None None ''green'' (clock 2026 11 13) (init_no_file (0::int))) = Inr ()"
  using add_validation [of 32 "100::int" "''Bonus''" "''green''" "init_no_file (0::int)"]
    add_validation [of 5 "0::int" "''Gym''" "''red''" "init_no_file (0::int)"]
    add_validation [of 1 "- 5::int" "''Gym''" "''red''" "init_no_file (0::int)" None None "clock 2026 11 13"]
    add_validation [of 31 "100::int" "''Bonus''" "''green''" "init_no_file (0::int)"]
    add_validation [of 1 "7::int" "''Bonus''" "''green''" "init_no_file (0::int)" None None "clock 2026 11 13"]
  by (auto simp: InvalidDay_def InvalidAmount_def add_monthly_expense_def add_expense_def)

text \<open>
  The claim as stated asks the amount error of every add operation for every amount of at
  most 0; \<open>add_monthly_income(32, -5, "Bonus")\<close> raises the day error instead.
\<close>

theorem add_amount_counterexample:
  "fst (add_monthly_income 32 (- 5) ''Bonus'' ''green'' (init_no_file (0::int))) =
     Inl (ValueError ''Day must be between 1 and 31'')
   \<and> \<not> InvalidAmount (ValueError ''Day must be between 1 and 31'')"
  by (simp add: add_monthly_income_def InvalidAmount_def)

text \<open>
  C8. When an add operation raises, the state it leaves is the state it was called in: the
  tracker (balances and the three lists) is unchanged and nothing has been written.
\<close>

theorem failed_add_leaves_state:
  "(fst (add_monthly_income day amount name color s) = Inl e \<longrightarrow>
      snd (add_monthly_income day amount name color s) = s)
   \<and> (fst (add_monthly_expense day amount name color s) = Inl e \<longrightarrow>
      snd (add_monthly_expense day amount name color s) = s)
   \<and> (fst (add_income amount date oname color now s) = Inl e \<longrightarrow>
      snd (add_income amount date oname color now s) = s)
   \<and> (fst (add_expense amount date oname color now s) = Inl e \<longrightarrow>
      snd (add_expense amount date oname color now s) = s)"
  by (simp add: add_monthly_income_def add_monthly_expense_def add_income_def add_expense_def
        Let_def)

theorem failed_add_leaves_state_witness:
  "fst (add_monthly_income 0 100 ''Bonus'' ''green'' (init_no_file (0::int))) =
     Inl (ValueError ''Day must be between 1 and 31'')
   \<and> snd (add_monthly_income 0 100 ''Bonus'' ''green'' (init_no_file (0::int))) = init_no_file (0::int)
   \<and> fst (add_expense 0 None None ''red'' (clock 2026 11 13) (init_no_file (0::int))) =
     Inl (ValueError ''Expense amount must be positive'')
   \<and> snd (add_expense 0 None None ''red'' (clock 2026 11 13) (init_no_file (0::int))) = init_no_file (0::int)"
proof -
  have m: "fst (add_monthly_income 0 100 ''Bonus'' ''green'' (init_no_file (0::int))) =
     Inl (ValueError ''Day must be between 1 and 31'')"
    by (simp add: add_monthly_income_def)
  have x: "fst (add_expense 0 None None ''red'' (clock 2026 11 13) (init_no_file (0::int))) =
     Inl (ValueError ''Expense amount must be positive'')"
    by (simp add: add_expense_def)
  from failed_add_leaves_state [of 0 "100::int" "''Bonus''" "''green''" "init_no_file (0::int)"
      "ValueError ''Day must be between 1 and 31''"] m
  have m': "snd (add_monthly_income 0 100 ''Bonus'' ''green'' (init_no_file (0::int))) = init_no_file (0::int)"
    by blast
  from failed_add_leaves_state [of _ "0::int" _ "''red''" "init_no_file (0::int)"
      "ValueError ''Expense amount must be positive''" None None "clock 2026 11 13"] x
  have "snd (add_expense 0 None None ''red'' (clock 2026 11 13) (init_no_file (0::int))) = init_no_file (0::int)"
    by blast
  with m x m' show ?thesis by blast
qed

text \<open>
  C9 (as the code has it). The invocation returns the state it was given: balances, lists
  and the written documents are unchanged. Its result is a function of the initial
  balance, the two recurring lists, the one-time list, the horizon and the calendar date
  of the clock: two states that agree on the four fields give the same result on the same
  day, whatever their other fields and whatever the time of day.
\<close>

theorem forecast_frame:
  "snd (generate_daily_forecast now max_days s) = s
   \<and> (initial_balance (tracker s') = initial_balance (tracker s) \<and>
      monthly_incomes (tracker s') = monthly_incomes (tracker s) \<and>
      monthly_expenses (tracker s') = monthly_expenses (tracker s) \<and>
      one_time_transactions (tracker s') = one_time_transactions (tracker s) \<and>
      date_of now' = date_of now \<longrightarrow>
      fst (generate_daily_forecast now' max_days s') = fst (generate_daily_forecast now max_days s))"
  by (auto simp: generate_daily_forecast_state intro: generate_daily_forecast_cong)

theorem forecast_frame_witness:
  "snd (generate_daily_forecast (clock 2026 11 21) 1 (init_no_file (0::int))) = init_no_file (0::int)
   \<and> date_of (datetime_ymd 2026 11 21) = date_of (clock 2026 11 21)
   \<and> fst (generate_daily_forecast (datetime_ymd 2026 11 21) 1
        \<lparr>tracker = (tracker (init_no_file (0::int)))\<lparr>current_balance := 77\<rparr>, written = []\<rparr>) =
      fst (generate_daily_forecast (clock 2026 11 21) 1 (init_no_file (0::int)))"
proof -
  have d: "date_of (datetime_ymd 2026 11 21) = date_of (clock 2026 11 21)"
    by (simp add: date_of_def datetime_ymd_def clock_def)
  from forecast_frame [of "clock 2026 11 21" 1 "init_no_file (0::int)"
      "\<lparr>tracker = (tracker (init_no_file (0::int)))\<lparr>current_balance := 77\<rparr>, written = []\<rparr>"
      "datetime_ymd 2026 11 21"] d
  show ?thesis by simp
qed

text \<open>
  The claim as stated leaves the clock out: the same tracker and horizon give one result
  on 2026-11-13 and another on 2026-11-21, the day of the default pension.
\<close>

theorem forecast_clock_counterexample:
  "fst (generate_daily_forecast (clock 2026 11 13) 1 (init_no_file (0::int))) =
     Inr [\<lparr>r_Date = ''2026-11-13'', r_Transaction = ''-'', r_Income = 0, r_Expense = 0,
            r_Balance = 0\<rparr>]
   \<and> fst (generate_daily_forecast (clock 2026 11 21) 1 (init_no_file (0::int))) =
     Inr [\<lparr>r_Date = ''2026-11-21'', r_Transaction = ''Pension'', r_Income = 13000,
            r_Expense = 0, r_Balance = 13000\<rparr>]"
  by code_simp

text \<open>
  C10. \<open>update_initial_balance\<close> raises for every balance below 0 and leaves the state
  as it was; for every balance of at least 0 it returns normally with both
  \<open>initial_balance\<close> and \<open>current_balance\<close> set to the given value (and saves).
\<close>

theorem update_initial_balance_spec:
  fixes balance :: "'a::{linorder,zero}"
  shows "(balance < 0 \<longrightarrow>
      fst (update_initial_balance balance s) =
        Inl (ValueError ''Initial balance cannot be negative'') \<and>
      snd (update_initial_balance balance s) = s)
   \<and> (0 \<le> balance \<longrightarrow>
      fst (update_initial_balance balance s) = Inr () \<and>
      initial_balance (tracker (snd (update_initial_balance balance s))) = balance \<and>
      current_balance (tracker (snd (update_initial_balance balance s))) = balance)"
  by (simp add: update_initial_balance_def save_data_def Let_def not_le)

theorem update_initial_balance_spec_witness:
  "fst (update_initial_balance (- 1) (init_no_file (0::int))) =
     Inl (ValueError ''Initial balance cannot be negative'')
   \<and> snd (update_initial_balance (- 1) (init_no_file (0::int))) = init_no_file (0::int)
   \<and> fst (update_initial_balance 0 (init_no_file (5::int))) = Inr ()
   \<and> initial_balance (tracker (snd (update_initial_balance 0 (init_no_file (5::int))))) = 0
   \<and> current_balance (tracker (snd (update_initial_balance 250 (init_no_file (5::int))))) = 250"
  using update_initial_balance_spec [of "- 1::int" "init_no_file (0::int)"]
    update_initial_balance_spec [of "0::int" "init_no_file (5::int)"]
    update_initial_balance_spec [of "250::int" "init_no_file (5::int)"]
  by simp

end
